theory Spec2Isabelle
  imports Main "HOL-Library.Word"
begin

section \<open>Values shared by Meter and Limit\<close>

text \<open>
  Go's \<open>int64\<close> is a 64-bit word read as two's complement: \<open>+\<close> and \<open>-\<close> wrap, \<open>sint\<close>
  gives the signed value, and the signed comparisons are \<open>\<le>s\<close> and \<open><s\<close>. Go's \<open>int\<close>
  (the byte count returned by \<open>Read\<close> and \<open>Write\<close>) is taken at its 64-bit width, so
  that \<open>int64(n)\<close> is the identity. The counters are \<open>atomic.Int64\<close>; calls are modelled
  one at a time, so \<open>Load\<close>, \<open>Store\<close> and \<open>Add\<close> are a read, a write and a wrapping
  addition of the field.
\<close>

type_synonym byte = "8 word"
type_synonym int64 = "64 word"
type_synonym addr = nat

text \<open>\<open>valve.go\<close>: \<open>type IO int\<close>, a bit mask; \<open>Read IO = 1 << iota\<close>, then \<open>Write\<close>, \<open>Close\<close>.\<close>

type_synonym IO = int

definition IO_Read :: IO where
  "IO_Read = push_bit 0 1"

definition IO_Write :: IO where
  "IO_Write = push_bit 1 1"

definition IO_Close :: IO where
  "IO_Close = push_bit 2 1"

text \<open>
  Error values. \<open>None\<close> of \<open>error option\<close> is Go's \<open>nil\<close>. \<open>ErrClosedPipe\<close>, \<open>EOF\<close>,
  \<open>ErrShortWrite\<close> and \<open>errInvalidWrite\<close> are the sentinels of package \<open>io\<close>; \<open>Errorf\<close>
  stands for any other error an endpoint reports. \<open>LimitError op Requested Accepted\<close>
  is the struct of \<open>limit.go\<close> (its back pointer to the Limit only serves the rendering
  of the message and is left out). \<open>Error cause\<close> is \<open>internal.Error\<close> as \<open>MakeError\<close> builds
  it: a cause and no wrapped errors (the creation time is not part of the comparison
  \<open>Error.Is\<close> makes). \<open>joinError\<close> is what \<open>errors.Join\<close> returns.
\<close>

datatype error =
    ErrClosedPipe
  | EOF
  | ErrShortWrite
  | errInvalidWrite
  | Errorf string
  | LimitError IO int64 int64
  | Error error
  | joinError "error list"

text \<open>A run-time panic of the Go program: a slice expression out of range, a nil dereference.\<close>

datatype panic = SliceBoundsOutOfRange | NilDereference

definition MakeError :: "error \<Rightarrow> error" where
  "MakeError cause = Error cause"

text \<open>
  \<open>errors.Join\<close> of the standard library: \<open>nil\<close> when every argument is \<open>nil\<close>, otherwise
  a \<open>joinError\<close> holding the non-nil arguments in order.
\<close>

definition errors_Join :: "error option list \<Rightarrow> error option" where
  "errors_Join errs =
     (let es = List.map_filter (\<lambda>e. e) errs
      in if es = [] then None else Some (joinError es))"




section \<open>Endpoints\<close>

text \<open>
  An endpoint is an object on the heap: the heap maps its address to its state. An
  interface value (\<open>io.Reader\<close>, \<open>io.Writer\<close>, \<open>io.ReadWriter\<close>) is the address together
  with the methods of the object's dynamic type: the method the interface requires, and
  \<open>Close\<close> when the dynamic type implements \<open>io.Closer\<close> (what the type assertion
  \<open>v.(io.Closer)\<close> finds out). Two interface values with the same address share the
  object. A method receives the state of its object and returns the new one.

  \<open>Read(p)\<close> returns the bytes it stored at the front of \<open>p\<close>, the count \<open>n\<close> it reports
  and its error; \<open>Write(p)\<close> returns the count and the error. Nothing forces the reported
  count to be the number of bytes stored, or to lie between 0 and \<open>len(p)\<close>.
\<close>

type_synonym 's heap = "addr \<Rightarrow> 's"

type_synonym 's Read_method = "byte list \<Rightarrow> 's \<Rightarrow> (byte list \<times> int64 \<times> error option) \<times> 's"
type_synonym 's Write_method = "byte list \<Rightarrow> 's \<Rightarrow> (int64 \<times> error option) \<times> 's"
type_synonym 's Close_method = "'s \<Rightarrow> error option \<times> 's"

record 's io_Reader =
  r_ptr :: addr
  r_Read :: "'s Read_method"
  r_Close :: "'s Close_method option"

record 's io_Writer =
  w_ptr :: addr
  w_Write :: "'s Write_method"
  w_Close :: "'s Close_method option"

record 's io_ReadWriter =
  rw_ptr :: addr
  rw_Read :: "'s Read_method"
  rw_Write :: "'s Write_method"
  rw_Close :: "'s Close_method option"

text \<open>Assigning an \<open>io.ReadWriter\<close> to an \<open>io.Reader\<close> or \<open>io.Writer\<close> keeps the object.\<close>

definition as_Reader :: "'s io_ReadWriter \<Rightarrow> 's io_Reader" where
  "as_Reader rw = \<lparr>r_ptr = rw_ptr rw, r_Read = rw_Read rw, r_Close = rw_Close rw\<rparr>"

definition as_Writer :: "'s io_ReadWriter \<Rightarrow> 's io_Writer" where
  "as_Writer rw = \<lparr>w_ptr = rw_ptr rw, w_Write = rw_Write rw, w_Close = rw_Close rw\<rparr>"

text \<open>The buffer \<open>p\<close> after a \<open>Read\<close> that stored the bytes \<open>d\<close> at its front.\<close>

definition fill :: "byte list \<Rightarrow> byte list \<Rightarrow> byte list" where
  "fill p d = take (length p) (d @ drop (length d) p)"

definition call_Read ::
  "'s io_Reader \<Rightarrow> byte list \<Rightarrow> 's heap \<Rightarrow> (byte list \<times> int64 \<times> error option) \<times> 's heap" where
  "call_Read r p h =
     (case r_Read r p (h (r_ptr r)) of
        ((d, n, err), s') \<Rightarrow> ((fill p d, n, err), h(r_ptr r := s')))"

definition call_Write ::
  "'s io_Writer \<Rightarrow> byte list \<Rightarrow> 's heap \<Rightarrow> (int64 \<times> error option) \<times> 's heap" where
  "call_Write w p h =
     (case w_Write w p (h (w_ptr w)) of
        ((n, err), s') \<Rightarrow> ((n, err), h(w_ptr w := s')))"

text \<open>
  An \<open>interface{}\<close> argument of \<open>Meter.close\<close>: \<open>nil\<close>, or the address and the \<open>Close\<close>
  method of the dynamic type if it has one.
\<close>

type_synonym 's any = "(addr \<times> 's Close_method option) option"

definition any_Reader :: "'s io_Reader option \<Rightarrow> 's any" where
  "any_Reader r = map_option (\<lambda>x. (r_ptr x, r_Close x)) r"

definition any_Writer :: "'s io_Writer option \<Rightarrow> 's any" where
  "any_Writer w = map_option (\<lambda>x. (w_ptr x, w_Close x)) w"

section \<open>Meter (meter.go)\<close>

record 's Meter =
  Reader :: "'s io_Reader option"
  Writer :: "'s io_Writer option"
  rCount :: int64
  wCount :: int64

definition NewMeter :: "'s io_Reader option \<Rightarrow> 's io_Writer option \<Rightarrow> 's Meter" where
  "NewMeter r w = \<lparr>Reader = r, Writer = w, rCount = 0, wCount = 0\<rparr>"

definition NewReadMeter :: "'s io_Reader option \<Rightarrow> 's Meter" where
  "NewReadMeter r = \<lparr>Reader = r, Writer = None, rCount = 0, wCount = 0\<rparr>"

definition NewWriteMeter :: "'s io_Writer option \<Rightarrow> 's Meter" where
  "NewWriteMeter w = \<lparr>Reader = None, Writer = w, rCount = 0, wCount = 0\<rparr>"

definition NewReadWriteMeter :: "'s io_ReadWriter option \<Rightarrow> 's Meter" where
  "NewReadWriteMeter rw =
     \<lparr>Reader = map_option as_Reader rw, Writer = map_option as_Writer rw,
      rCount = 0, wCount = 0\<rparr>"

definition CanRead :: "'s Meter \<Rightarrow> bool" where
  "CanRead m = (Reader m \<noteq> None)"

definition CanWrite :: "'s Meter \<Rightarrow> bool" where
  "CanWrite m = (Writer m \<noteq> None)"

definition CountRead :: "'s Meter \<Rightarrow> int64" where
  "CountRead m = rCount m"

definition CountWrite :: "'s Meter \<Rightarrow> int64" where
  "CountWrite m = wCount m"

text \<open>The mutators return the method's result (if any) and the Meter after the call.\<close>

definition AddCountRead :: "'s Meter \<Rightarrow> int64 \<Rightarrow> int64 \<times> 's Meter" where
  "AddCountRead m r = (rCount m + r, m\<lparr>rCount := rCount m + r\<rparr>)"

definition AddCountWrite :: "'s Meter \<Rightarrow> int64 \<Rightarrow> int64 \<times> 's Meter" where
  "AddCountWrite m w = (wCount m + w, m\<lparr>wCount := wCount m + w\<rparr>)"

definition SetCountRead :: "'s Meter \<Rightarrow> int64 \<Rightarrow> 's Meter" where
  "SetCountRead m r = m\<lparr>rCount := r\<rparr>"

definition SetCountWrite :: "'s Meter \<Rightarrow> int64 \<Rightarrow> 's Meter" where
  "SetCountWrite m w = m\<lparr>wCount := w\<rparr>"

definition SetCount :: "'s Meter \<Rightarrow> int64 \<Rightarrow> int64 \<Rightarrow> 's Meter" where
  "SetCount m r w = SetCountWrite (SetCountRead m r) w"

definition ResetCountRead :: "'s Meter \<Rightarrow> 's Meter" where
  "ResetCountRead m = SetCountRead m 0"

definition ResetCountWrite :: "'s Meter \<Rightarrow> 's Meter" where
  "ResetCountWrite m = SetCountWrite m 0"

definition ResetCount :: "'s Meter \<Rightarrow> 's Meter" where
  "ResetCount m = ResetCountWrite (ResetCountRead m)"

text \<open>
  \<open>Meter.Read\<close> and \<open>Meter.Write\<close>. The result is the buffer after the call (for \<open>Read\<close>),
  the count and the error, then the Meter and the heap after the call.
\<close>

definition Meter_Read ::
  "'s Meter \<Rightarrow> byte list \<Rightarrow> 's heap \<Rightarrow>
     (byte list \<times> int64 \<times> error option) \<times> 's Meter \<times> 's heap" where
  "Meter_Read m p h =
     (case Reader m of
        None \<Rightarrow> ((p, 0, Some ErrClosedPipe), m, h)
      | Some rd \<Rightarrow>
          (case call_Read rd p h of
             ((p', n, err), h') \<Rightarrow> ((p', n, err), snd (AddCountRead m n), h')))"

definition Meter_Write ::
  "'s Meter \<Rightarrow> byte list \<Rightarrow> 's heap \<Rightarrow> (int64 \<times> error option) \<times> 's Meter \<times> 's heap" where
  "Meter_Write m p h =
     (case Writer m of
        None \<Rightarrow> ((0, Some ErrClosedPipe), m, h)
      | Some wr \<Rightarrow>
          (case call_Write wr p h of
             ((n, err), h') \<Rightarrow> ((n, err), snd (AddCountWrite m n), h')))"

text \<open>
  \<open>Meter.close\<close>: the loop over the arguments, with the error joined so far. \<open>Meter.Close\<close>
  calls it on the reader binding, then the writer binding.
\<close>

fun Meter_close :: "'s any list \<Rightarrow> error option \<Rightarrow> 's heap \<Rightarrow> error option \<times> 's heap" where
  "Meter_close [] err h = (err, h)"
| "Meter_close (None # vs) err h = Meter_close vs err h"
| "Meter_close (Some (a, None) # vs) err h = Meter_close vs err h"
| "Meter_close (Some (a, Some c) # vs) err h =
     (case c (h a) of (e, s') \<Rightarrow> Meter_close vs (errors_Join [err, e]) (h(a := s')))"

definition Meter_Close :: "'s Meter \<Rightarrow> 's heap \<Rightarrow> error option \<times> 's heap" where
  "Meter_Close m h = Meter_close [any_Reader (Reader m), any_Writer (Writer m)] None h"

section \<open>Copying (package io of the standard library)\<close>

text \<open>
  \<open>io.Copy\<close> and \<open>io.CopyN\<close> are not code of this repository; they are transcribed from
  the standard library so that the drains of Meter and Limit compute. The endpoints
  offer \<open>Read\<close>, \<open>Write\<close> and \<open>Close\<close> only, so the loop of \<open>copyBuffer\<close> is what runs
  (the shortcuts through \<open>WriterTo\<close> and \<open>ReaderFrom\<close> need a dynamic type with those
  methods). The loop is written over any world \<open>'w\<close>: the heap for \<open>io.Copy\<close>, the heap
  and the remaining count \<open>N\<close> of the \<open>LimitedReader\<close> for \<open>io.CopyN\<close>. A loop that never
  ends has the value \<open>None\<close>; a slice expression out of range is \<open>Inl\<close> of the panic.
\<close>

type_synonym 'w reader_call = "byte list \<Rightarrow> 'w \<Rightarrow> (byte list \<times> int64 \<times> error option) \<times> 'w"
type_synonym 'w writer_call = "byte list \<Rightarrow> 'w \<Rightarrow> (int64 \<times> error option) \<times> 'w"

partial_function (option) copyBuffer_loop ::
  "'w writer_call \<Rightarrow> 'w reader_call \<Rightarrow> byte list \<Rightarrow> int64 \<Rightarrow> 'w \<Rightarrow>
     (panic + ((int64 \<times> error option) \<times> 'w)) option" where
  "copyBuffer_loop dst src buf written w =
     (case src buf w of
        ((buf', nr, er), w1) \<Rightarrow>
          if 0 <s nr then
            (if int (length buf') < sint nr then Some (Inl SliceBoundsOutOfRange)
             else
               (case dst (take (nat (sint nr)) buf') w1 of
                  ((nw0, ew0), w2) \<Rightarrow>
                    let bad = (nw0 <s 0 \<or> nr <s nw0);
                        nw = (if bad then 0 else nw0);
                        ew = (if bad \<and> ew0 = None then Some errInvalidWrite else ew0);
                        written' = written + nw
                    in if ew \<noteq> None then Some (Inr ((written', ew), w2))
                       else if nr \<noteq> nw then Some (Inr ((written', Some ErrShortWrite), w2))
                       else if er \<noteq> None
                         then Some (Inr ((written', if er = Some EOF then None else er), w2))
                       else copyBuffer_loop dst src buf' written' w2))
          else if er \<noteq> None
            then Some (Inr ((written, if er = Some EOF then None else er), w1))
          else copyBuffer_loop dst src buf' written w1)"

declare copyBuffer_loop.simps [code]

text \<open>\<open>io.Copy\<close>: a fresh buffer of 32 KiB, nothing written yet.\<close>

definition io_Copy ::
  "'s io_Writer \<Rightarrow> 's io_Reader \<Rightarrow> 's heap \<Rightarrow> (panic + ((int64 \<times> error option) \<times> 's heap)) option" where
  "io_Copy dst src h =
     copyBuffer_loop (call_Write dst) (call_Read src) (replicate (32 * 1024) 0) 0 h"

text \<open>\<open>LimitedReader.Read\<close>, on the heap paired with the field \<open>N\<close>.\<close>

definition LimitedReader_Read :: "'s io_Reader \<Rightarrow> ('s heap \<times> int64) reader_call" where
  "LimitedReader_Read R p w =
     (case w of
        (h, N) \<Rightarrow>
          if N \<le>s 0 then ((p, 0, Some EOF), (h, N))
          else
            let q = (if N <s of_nat (length p) then take (nat (sint N)) p else p)
            in case call_Read R q h of
                 ((q', n, err), h') \<Rightarrow> ((q' @ drop (length q') p, n, err), (h', N - n)))"

definition LimitedReader_dst :: "'s io_Writer \<Rightarrow> ('s heap \<times> int64) writer_call" where
  "LimitedReader_dst dst p w =
     (case w of (h, N) \<Rightarrow> (case call_Write dst p h of (res, h') \<Rightarrow> (res, (h', N))))"

text \<open>
  \<open>io.CopyN\<close>: \<open>Copy(dst, LimitReader(src, n))\<close>, whose buffer is \<open>n\<close> bytes long when
  \<open>n\<close> is below 32 KiB (one byte when \<open>n < 1\<close>); then \<open>written == n\<close> clears the error,
  and a short copy without error becomes \<open>EOF\<close>.
\<close>

definition io_CopyN ::
  "'s io_Writer \<Rightarrow> 's io_Reader \<Rightarrow> int64 \<Rightarrow> 's heap \<Rightarrow>
     (panic + ((int64 \<times> error option) \<times> 's heap)) option" where
  "io_CopyN dst src n h =
     (let size = (if n <s 32 * 1024 then (if n <s 1 then 1 else nat (sint n)) else 32 * 1024)
      in case copyBuffer_loop (LimitedReader_dst dst) (LimitedReader_Read src)
                (replicate size 0) 0 (h, n) of
           None \<Rightarrow> None
         | Some (Inl pn) \<Rightarrow> Some (Inl pn)
         | Some (Inr ((written, err), (h', N'))) \<Rightarrow>
             Some (Inr ((if written = n then (n, None)
                         else if written <s n \<and> err = None then (written, Some EOF)
                         else (written, err)), h')))"

text \<open>\<open>Meter.ReadFrom\<close> and \<open>Meter.WriteTo\<close>.\<close>

definition Meter_ReadFrom ::
  "'s Meter \<Rightarrow> 's io_Reader \<Rightarrow> 's heap \<Rightarrow>
     (panic + ((int64 \<times> error option) \<times> 's Meter \<times> 's heap)) option" where
  "Meter_ReadFrom m r h =
     (case Writer m of
        None \<Rightarrow> Some (Inr ((0, Some ErrClosedPipe), m, h))
      | Some wr \<Rightarrow>
          (case io_Copy wr r h of
             None \<Rightarrow> None
           | Some (Inl pn) \<Rightarrow> Some (Inl pn)
           | Some (Inr ((n, err), h')) \<Rightarrow> Some (Inr ((n, err), snd (AddCountWrite m n), h'))))"

definition Meter_WriteTo ::
  "'s Meter \<Rightarrow> 's io_Writer \<Rightarrow> 's heap \<Rightarrow>
     (panic + ((int64 \<times> error option) \<times> 's Meter \<times> 's heap)) option" where
  "Meter_WriteTo m w h =
     (case Reader m of
        None \<Rightarrow> Some (Inr ((0, Some ErrClosedPipe), m, h))
      | Some rd \<Rightarrow>
          (case io_Copy w rd h of
             None \<Rightarrow> None
           | Some (Inl pn) \<Rightarrow> Some (Inl pn)
           | Some (Inr ((n, err), h')) \<Rightarrow> Some (Inr ((n, err), snd (AddCountRead m n), h'))))"

section \<open>Limit (limit.go)\<close>

record 's Limit =
  Meter :: "'s Meter option"
  rMax :: int64
  wMax :: int64

definition Unlimited :: int64 where
  "Unlimited = - 1"

definition MaxCountRead :: "'s Limit \<Rightarrow> int64" where
  "MaxCountRead l = rMax l"

definition MaxCountWrite :: "'s Limit \<Rightarrow> int64" where
  "MaxCountWrite l = wMax l"

definition SetMaxCountRead :: "'s Limit \<Rightarrow> int64 \<Rightarrow> 's Limit" where
  "SetMaxCountRead l r = l\<lparr>rMax := r\<rparr>"

definition SetMaxCountWrite :: "'s Limit \<Rightarrow> int64 \<Rightarrow> 's Limit" where
  "SetMaxCountWrite l w = l\<lparr>wMax := w\<rparr>"

definition SetMaxCount :: "'s Limit \<Rightarrow> int64 \<Rightarrow> int64 \<Rightarrow> 's Limit" where
  "SetMaxCount l r w = (l\<lparr>rMax := r\<rparr>)\<lparr>wMax := w\<rparr>"

definition NewLimit ::
  "'s io_Reader option \<Rightarrow> int64 \<Rightarrow> 's io_Writer option \<Rightarrow> int64 \<Rightarrow> 's Limit" where
  "NewLimit r rmax w wmax =
     SetMaxCount \<lparr>Meter = Some (NewMeter r w), rMax = 0, wMax = 0\<rparr> rmax wmax"

definition NewReadLimit :: "'s io_Reader option \<Rightarrow> int64 \<Rightarrow> 's Limit" where
  "NewReadLimit r rmax =
     SetMaxCountRead \<lparr>Meter = Some (NewReadMeter r), rMax = 0, wMax = 0\<rparr> rmax"

definition NewWriteLimit :: "'s io_Writer option \<Rightarrow> int64 \<Rightarrow> 's Limit" where
  "NewWriteLimit w wmax =
     SetMaxCountWrite \<lparr>Meter = Some (NewWriteMeter w), rMax = 0, wMax = 0\<rparr> wmax"

definition NewReadWriteLimit :: "'s io_ReadWriter option \<Rightarrow> int64 \<Rightarrow> int64 \<Rightarrow> 's Limit" where
  "NewReadWriteLimit rw rmax wmax =
     SetMaxCount \<lparr>Meter = Some (NewReadWriteMeter rw), rMax = 0, wMax = 0\<rparr> rmax wmax"

definition Limit_CanRead :: "'s Limit \<Rightarrow> bool" where
  "Limit_CanRead l = (case Meter l of None \<Rightarrow> False | Some m \<Rightarrow> CanRead m)"

definition Limit_CanWrite :: "'s Limit \<Rightarrow> bool" where
  "Limit_CanWrite l = (case Meter l of None \<Rightarrow> False | Some m \<Rightarrow> CanWrite m)"

text \<open>
  The counter accessors of the embedded \<open>*Meter\<close>, called through the Limit: they
  dereference the pointer, which panics when it is \<open>nil\<close>.
\<close>

definition Limit_CountRead :: "'s Limit \<Rightarrow> panic + int64" where
  "Limit_CountRead l = (case Meter l of None \<Rightarrow> Inl NilDereference | Some m \<Rightarrow> Inr (CountRead m))"

definition Limit_CountWrite :: "'s Limit \<Rightarrow> panic + int64" where
  "Limit_CountWrite l = (case Meter l of None \<Rightarrow> Inl NilDereference | Some m \<Rightarrow> Inr (CountWrite m))"

definition RemainingCountRead :: "'s Limit \<Rightarrow> panic + int64" where
  "RemainingCountRead l =
     (case Limit_CountRead l of Inl pn \<Rightarrow> Inl pn | Inr c \<Rightarrow> Inr (MaxCountRead l - c))"

definition RemainingCountWrite :: "'s Limit \<Rightarrow> panic + int64" where
  "RemainingCountWrite l =
     (case Limit_CountWrite l of Inl pn \<Rightarrow> Inl pn | Inr c \<Rightarrow> Inr (MaxCountWrite l - c))"

definition MakeReadLimitError :: "int64 \<Rightarrow> int64 \<Rightarrow> error" where
  "MakeReadLimitError req n = MakeError (LimitError IO_Read req n)"

definition MakeWriteLimitError :: "int64 \<Rightarrow> int64 \<Rightarrow> error" where
  "MakeWriteLimitError req n = MakeError (LimitError IO_Write req n)"

text \<open>
  \<open>Limit.Read\<close>. The switch evaluates \<open>req\<close> and \<open>rem\<close> first, then takes the first case
  that holds; \<open>p[:rem]\<close> panics when \<open>rem\<close> is negative (it is below \<open>len(p)\<close> in that
  case, so the upper bound holds). After the switch the reader of the Meter is called
  directly, on the buffer the switch left, and the counter takes the count it reports.
\<close>

definition Limit_Read ::
  "'s Limit \<Rightarrow> byte list \<Rightarrow> 's heap \<Rightarrow>
     panic + ((byte list \<times> int64 \<times> error option) \<times> 's Limit \<times> 's heap)" where
  "Limit_Read l p h =
     (if \<not> Limit_CanRead l then Inr ((p, 0, Some ErrClosedPipe), l, h)
      else
        (case Meter l of
           None \<Rightarrow> Inl NilDereference
         | Some m \<Rightarrow>
             (case Reader m of
                None \<Rightarrow> Inl NilDereference
              | Some rd \<Rightarrow>
                  (case RemainingCountRead l of
                     Inl pn \<Rightarrow> Inl pn
                   | Inr rem \<Rightarrow>
                       let req = of_nat (length p)
                       in if MaxCountRead l = Unlimited then
                            (case Meter_Read m p h of
                               (res, m', h') \<Rightarrow> Inr (res, l\<lparr>Meter := Some m'\<rparr>, h'))
                          else if MaxCountRead l \<le>s CountRead m then
                            Inr ((p, 0, Some (MakeReadLimitError req 0)), l, h)
                          else if rem <s req \<and> rem <s 0 then Inl SliceBoundsOutOfRange
                          else
                            let q = (if rem <s req then take (nat (sint rem)) p else p);
                                e = (if rem <s req then Some (MakeReadLimitError req rem)
                                     else None)
                            in case call_Read rd q h of
                                 ((q', n, err), h') \<Rightarrow>
                                   Inr ((q' @ drop (length q') p, n,
                                         if err = None then e else err),
                                        l\<lparr>Meter := Some (snd (AddCountRead m n))\<rparr>, h')))))"

definition Limit_Write ::
  "'s Limit \<Rightarrow> byte list \<Rightarrow> 's heap \<Rightarrow> panic + ((int64 \<times> error option) \<times> 's Limit \<times> 's heap)" where
  "Limit_Write l p h =
     (if \<not> Limit_CanWrite l then Inr ((0, Some ErrClosedPipe), l, h)
      else
        (case Meter l of
           None \<Rightarrow> Inl NilDereference
         | Some m \<Rightarrow>
             (case Writer m of
                None \<Rightarrow> Inl NilDereference
              | Some wr \<Rightarrow>
                  (case RemainingCountWrite l of
                     Inl pn \<Rightarrow> Inl pn
                   | Inr rem \<Rightarrow>
                       let req = of_nat (length p)
                       in if MaxCountWrite l = Unlimited then
                            (case Meter_Write m p h of
                               (res, m', h') \<Rightarrow> Inr (res, l\<lparr>Meter := Some m'\<rparr>, h'))
                          else if MaxCountWrite l \<le>s CountWrite m then
                            Inr ((0, Some (MakeWriteLimitError req 0)), l, h)
                          else if rem <s req \<and> rem <s 0 then Inl SliceBoundsOutOfRange
                          else
                            let q = (if rem <s req then take (nat (sint rem)) p else p);
                                e = (if rem <s req then Some (MakeWriteLimitError req rem)
                                     else None)
                            in case call_Write wr q h of
                                 ((n, err), h') \<Rightarrow>
                                   Inr ((n, if err = None then e else err),
                                        l\<lparr>Meter := Some (snd (AddCountWrite m n))\<rparr>, h')))))"

text \<open>\<open>Limit.ReadFrom\<close> and \<open>Limit.WriteTo\<close>.\<close>

definition Limit_ReadFrom ::
  "'s Limit \<Rightarrow> 's io_Reader \<Rightarrow> 's heap \<Rightarrow>
     (panic + ((int64 \<times> error option) \<times> 's Limit \<times> 's heap)) option" where
  "Limit_ReadFrom l r h =
     (if \<not> Limit_CanWrite l then Some (Inr ((0, Some ErrClosedPipe), l, h))
      else
        (case Meter l of
           None \<Rightarrow> Some (Inl NilDereference)
         | Some m \<Rightarrow>
             (case Writer m of
                None \<Rightarrow> Some (Inl NilDereference)
              | Some wr \<Rightarrow>
                  (case RemainingCountWrite l of
                     Inl pn \<Rightarrow> Some (Inl pn)
                   | Inr rem \<Rightarrow>
                       if MaxCountWrite l = Unlimited then
                         (case Meter_ReadFrom m r h of
                            None \<Rightarrow> None
                          | Some (Inl pn) \<Rightarrow> Some (Inl pn)
                          | Some (Inr (res, m', h')) \<Rightarrow> Some (Inr (res, l\<lparr>Meter := Some m'\<rparr>, h')))
                       else if rem \<le>s 0 then
                         Some (Inr ((0, Some (MakeWriteLimitError rem 0)), l, h))
                       else
                         (case io_CopyN wr r rem h of
                            None \<Rightarrow> None
                          | Some (Inl pn) \<Rightarrow> Some (Inl pn)
                          | Some (Inr ((n, err), h')) \<Rightarrow>
                              Some (Inr ((n, err),
                                         l\<lparr>Meter := Some (snd (AddCountWrite m n))\<rparr>, h')))))))"

definition Limit_WriteTo ::
  "'s Limit \<Rightarrow> 's io_Writer \<Rightarrow> 's heap \<Rightarrow>
     (panic + ((int64 \<times> error option) \<times> 's Limit \<times> 's heap)) option" where
  "Limit_WriteTo l w h =
     (if \<not> Limit_CanRead l then Some (Inr ((0, Some ErrClosedPipe), l, h))
      else
        (case Meter l of
           None \<Rightarrow> Some (Inl NilDereference)
         | Some m \<Rightarrow>
             (case Reader m of
                None \<Rightarrow> Some (Inl NilDereference)
              | Some rd \<Rightarrow>
                  (case RemainingCountRead l of
                     Inl pn \<Rightarrow> Some (Inl pn)
                   | Inr rem \<Rightarrow>
                       if MaxCountRead l = Unlimited then
                         (case Meter_WriteTo m w h of
                            None \<Rightarrow> None
                          | Some (Inl pn) \<Rightarrow> Some (Inl pn)
                          | Some (Inr (res, m', h')) \<Rightarrow> Some (Inr (res, l\<lparr>Meter := Some m'\<rparr>, h')))
                       else if rem \<le>s 0 then
                         Some (Inr ((0, Some (MakeReadLimitError rem 0)), l, h))
                       else
                         (case io_CopyN w rd rem h of
                            None \<Rightarrow> None
                          | Some (Inl pn) \<Rightarrow> Some (Inl pn)
                          | Some (Inr ((n, err), h')) \<Rightarrow>
                              Some (Inr ((n, err),
                                         l\<lparr>Meter := Some (snd (AddCountRead m n))\<rparr>, h')))))))"


section \<open>Endpoints and values of the tests\<close>

text \<open>
  \<open>bytes.NewReader(b)\<close>: the state is the unread part of \<open>b\<close>; \<open>Read\<close> copies what fits
  and reports \<open>EOF\<close> once nothing is left. \<open>bytes.Buffer\<close> as a writer: the state is the
  content; \<open>Write\<close> appends all of \<open>p\<close>. Neither is a closer here.
\<close>

definition bytes_Reader :: "addr \<Rightarrow> (byte list) io_Reader" where
  "bytes_Reader a =
     \<lparr>r_ptr = a,
      r_Read = (\<lambda>p s. if s = [] then (([], 0, Some EOF), s)
                      else ((take (length p) s, of_nat (min (length p) (length s)), None),
                            drop (length p) s)),
      r_Close = None\<rparr>"

definition bytes_Buffer :: "addr \<Rightarrow> (byte list) io_Writer" where
  "bytes_Buffer a =
     \<lparr>w_ptr = a,
      w_Write = (\<lambda>p s. ((of_nat (length p), None), s @ p)),
      w_Close = None\<rparr>"

text \<open>\<open>mock_test.go\<close>: \<open>mockReadWriteCloser{rerr, werr, cerr}\<close>, a value without state.\<close>

definition mockReadWriteCloser ::
  "addr \<Rightarrow> error option \<Rightarrow> error option \<Rightarrow> error option \<Rightarrow> (byte list) io_ReadWriter" where
  "mockReadWriteCloser a rerr werr cerr =
     \<lparr>rw_ptr = a,
      rw_Read = (\<lambda>p s. (([], 0, rerr), s)),
      rw_Write = (\<lambda>p s. ((0, werr), s)),
      rw_Close = Some (\<lambda>s. (cerr, s))\<rparr>"

text \<open>The payload of the tests, \<open>[]byte("Hello, World!")\<close>, 13 bytes.\<close>

definition limitSrcBuf :: "byte list" where
  "limitSrcBuf = map of_char ''Hello, World!''"

text \<open>
  A Limit over a reader at address 0 and a writer at address 1, with the ceilings and
  the counters given: the state a Limit is in after transfers and calls of
  \<open>SetMaxCount\<close> and \<open>SetCount\<close>.
\<close>

definition Limit_at :: "int64 \<Rightarrow> int64 \<Rightarrow> int64 \<Rightarrow> int64 \<Rightarrow> (byte list) Limit" where
  "Limit_at rmax rcount wmax wcount =
     \<lparr>Meter = Some (SetCount (NewMeter (Some (bytes_Reader 0)) (Some (bytes_Buffer 1)))
                       rcount wcount),
      rMax = rmax, wMax = wmax\<rparr>"

definition Meter_at :: "int64 \<Rightarrow> int64 \<Rightarrow> (byte list) Meter" where
  "Meter_at rcount wcount =
     SetCount (NewMeter (Some (bytes_Reader 0)) (Some (bytes_Buffer 1))) rcount wcount"

text \<open>The heap of the tests: the payload unread at address 0, nothing anywhere else.\<close>

definition heap0 :: "(byte list) heap" where
  "heap0 = (\<lambda>a. [])(0 := limitSrcBuf)"

text \<open>A heap whose reader at address 0 has only the first two bytes of the payload left.\<close>

definition heap_short :: "(byte list) heap" where
  "heap_short = (\<lambda>a. [])(0 := take 2 limitSrcBuf)"

text \<open>
  A Limit over one \<open>mockReadWriteCloser\<close> at address 2, as \<open>NewReadWriteLimit\<close> builds
  it, with both ceilings at 5: its \<open>Read\<close> fails, its \<open>Write\<close> accepts nothing without
  an error.
\<close>

definition mock_Limit :: "(byte list) Limit" where
  "mock_Limit =
     NewReadWriteLimit
       (Some (mockReadWriteCloser 2 (Some (Errorf ''read fault'')) None None)) 5 5"

text \<open>
  An endpoint that can be closed once, as a file can: the state is empty while it is
  open; the first \<open>Close\<close> succeeds and marks it, every later one fails.
\<close>

definition fileCloser :: "addr \<Rightarrow> (byte list) io_ReadWriter" where
  "fileCloser a =
     \<lparr>rw_ptr = a,
      rw_Read = (\<lambda>p s. (([], 0, Some EOF), s)),
      rw_Write = (\<lambda>p s. ((of_nat (length p), None), s)),
      rw_Close = Some (\<lambda>s. if s = [] then (None, [1])
                             else (Some (Errorf ''file already closed''), s))\<rparr>"

text \<open>The error of \<open>TestMeter_Close\<close>, \<open>fmt.Errorf("close error: %w", io.EOF)\<close>.\<close>

definition cerr :: error where
  "cerr = Errorf ''close error: EOF''"

text \<open>A heap whose reader at address 0 has exactly the first five bytes of the payload.\<close>

definition heap_five :: "(byte list) heap" where
  "heap_five = (\<lambda>a. [])(0 := take 5 limitSrcBuf)"

section \<open>Endpoints that keep to the request\<close>







section \<open>Close as the specification words it\<close>



section \<open>Properties\<close>

lemmas signed_cmp = word_sless_alt word_sle_eq

text \<open>
  C3. With a reader (writer) bound, a read (write) ceiling other than \<open>Unlimited\<close> and
  the counter already at or above the ceiling, \<open>Limit.Read\<close> (\<open>Limit.Write\<close>) of any buffer
  returns 0 bytes and the LimitError with \<open>Requested = len(p)\<close> and \<open>Accepted = 0\<close>; the
  buffer, the Limit with its counters and the heap, hence the endpoint, are untouched.
\<close>

theorem C3_at_ceiling_rejected:
  assumes "Meter l = Some m"
  shows "(CanRead m \<and> MaxCountRead l \<noteq> Unlimited \<and> MaxCountRead l \<le>s CountRead m \<longrightarrow>
            Limit_Read l p h =
              Inr ((p, 0, Some (MakeError (LimitError IO_Read (of_nat (length p)) 0))), l, h))
       \<and> (CanWrite m \<and> MaxCountWrite l \<noteq> Unlimited \<and> MaxCountWrite l \<le>s CountWrite m \<longrightarrow>
            Limit_Write l p h =
              Inr ((0, Some (MakeError (LimitError IO_Write (of_nat (length p)) 0))), l, h))"
  using assms
  by (auto simp: Limit_Read_def Limit_Write_def Limit_CanRead_def Limit_CanWrite_def
      CanRead_def CanWrite_def RemainingCountRead_def RemainingCountWrite_def
      Limit_CountRead_def Limit_CountWrite_def MakeReadLimitError_def MakeWriteLimitError_def
      Let_def split: option.splits)

theorem C3_at_ceiling_rejected_witness:
  "Meter (Limit_at 5 5 13 13) = Some (Meter_at 5 13)
   \<and> CanRead (Meter_at 5 13) \<and> MaxCountRead (Limit_at 5 5 13 13) \<noteq> Unlimited
   \<and> MaxCountRead (Limit_at 5 5 13 13) \<le>s CountRead (Meter_at 5 13)
   \<and> CanWrite (Meter_at 5 13) \<and> MaxCountWrite (Limit_at 5 5 13 13) \<noteq> Unlimited
   \<and> MaxCountWrite (Limit_at 5 5 13 13) \<le>s CountWrite (Meter_at 5 13)
   \<and> Limit_Read (Limit_at 5 5 13 13) limitSrcBuf heap0 =
        Inr ((limitSrcBuf, 0, Some (MakeError (LimitError IO_Read 13 0))),
             Limit_at 5 5 13 13, heap0)
   \<and> Limit_Write (Limit_at 5 5 13 13) limitSrcBuf heap0 =
        Inr ((0, Some (MakeError (LimitError IO_Write 13 0))), Limit_at 5 5 13 13, heap0)"
  using C3_at_ceiling_rejected [of "Limit_at 5 5 13 13" "Meter_at 5 13" limitSrcBuf heap0]
  by (simp add: Limit_at_def Meter_at_def SetCount_def SetCountRead_def SetCountWrite_def
      NewMeter_def CanRead_def CanWrite_def MaxCountRead_def MaxCountWrite_def Unlimited_def
      CountRead_def CountWrite_def limitSrcBuf_def signed_cmp)

subsection \<open>Signed 64-bit arithmetic that does not wrap\<close>


lemma sint_sub_no_wrap:
  fixes a b :: int64
  assumes "- (2 ^ 63) \<le> sint a - sint b" "sint a - sint b < 2 ^ 63"
  shows "sint (a - b) = sint a - sint b"
  using assms by (simp add: sint_word_ariths signed_take_bit_int_eq_self)


lemma sint_of_nat64:
  assumes "n < 2 ^ 63"
  shows "sint (of_nat n :: int64) = int n"
  using assms by (simp add: signed_of_nat signed_take_bit_int_eq_self)


subsection \<open>Limit.Read and Limit.Write below the ceiling\<close>

lemma length_fill: "length (fill p d) = length p"
  by (simp add: fill_def)

text \<open>
  What the two calls do once the ceiling is not \<open>Unlimited\<close>, the counter is below it
  and the slice expression does not panic: the endpoint gets the buffer \<open>q\<close> the switch
  left, the counter takes the count \<open>n\<close> the endpoint reports, and the endpoint's error
  is replaced by the pending LimitError only when it is \<open>nil\<close>.
\<close>

lemma Limit_Read_limited:
  assumes "Meter l = Some m" "Reader m = Some rd" "MaxCountRead l \<noteq> Unlimited"
    and "\<not> MaxCountRead l \<le>s CountRead m"
    and "rem = MaxCountRead l - CountRead m" "req = of_nat (length p)"
    and "\<not> (rem <s req \<and> rem <s 0)"
    and "q = (if rem <s req then take (nat (sint rem)) p else p)"
    and "r_Read rd q (h (r_ptr rd)) = ((d, n, uerr), s')"
  shows "Limit_Read l p h =
           Inr ((fill q d @ drop (length q) p, n,
                 if uerr = None
                 then (if rem <s req then Some (MakeError (LimitError IO_Read req rem)) else None)
                 else uerr),
                l\<lparr>Meter := Some (m\<lparr>rCount := rCount m + n\<rparr>)\<rparr>, h(r_ptr rd := s'))"
  using assms
  by (cases "MaxCountRead l - CountRead m <s of_nat (length p)")
    (simp_all add: Limit_Read_def Limit_CanRead_def CanRead_def RemainingCountRead_def
      Limit_CountRead_def MakeReadLimitError_def MakeError_def Let_def call_Read_def
      AddCountRead_def length_fill CountRead_def)

lemma Limit_Write_limited:
  assumes "Meter l = Some m" "Writer m = Some wr" "MaxCountWrite l \<noteq> Unlimited"
    and "\<not> MaxCountWrite l \<le>s CountWrite m"
    and "rem = MaxCountWrite l - CountWrite m" "req = of_nat (length p)"
    and "\<not> (rem <s req \<and> rem <s 0)"
    and "q = (if rem <s req then take (nat (sint rem)) p else p)"
    and "w_Write wr q (h (w_ptr wr)) = ((n, uerr), s')"
  shows "Limit_Write l p h =
           Inr ((n,
                 if uerr = None
                 then (if rem <s req then Some (MakeError (LimitError IO_Write req rem)) else None)
                 else uerr),
                l\<lparr>Meter := Some (m\<lparr>wCount := wCount m + n\<rparr>)\<rparr>, h(w_ptr wr := s'))"
  using assms
  by (cases "MaxCountWrite l - CountWrite m <s of_nat (length p)")
    (simp_all add: Limit_Write_def Limit_CanWrite_def CanWrite_def RemainingCountWrite_def
      Limit_CountWrite_def MakeWriteLimitError_def MakeError_def Let_def call_Write_def
      AddCountWrite_def CountWrite_def)

text \<open>
  The truncated call whose endpoint takes the whole truncated buffer without an error.
  The remaining capacity is the difference of the signed values; being positive and
  below \<open>len(p)\<close>, it is what the wrapping subtraction of the code computes.
\<close>

lemma Limit_Read_truncated_full:
  assumes "Meter l = Some m" "length p < 2 ^ 63" "Reader m = Some rd"
    and "MaxCountRead l \<noteq> Unlimited"
    and "0 < sint (MaxCountRead l) - sint (CountRead m)"
    and "sint (MaxCountRead l) - sint (CountRead m) < int (length p)"
    and "r_Read rd (take (nat (sint (MaxCountRead l) - sint (CountRead m))) p) (h (r_ptr rd))
           = ((d, n, None), s')"
    and "sint n = sint (MaxCountRead l) - sint (CountRead m)"
  shows "Limit_Read l p h =
           Inr ((fill (take (nat (sint n)) p) d @ drop (nat (sint n)) p, n,
                 Some (MakeError (LimitError IO_Read (of_nat (length p)) n))),
                l\<lparr>Meter := Some (m\<lparr>rCount := rCount m + n\<rparr>)\<rparr>, h(r_ptr rd := s'))"
proof -
  let ?rem = "MaxCountRead l - CountRead m"
  have req: "sint (of_nat (length p) :: int64) = int (length p)"
    using assms(2) by (rule sint_of_nat64)
  have "sint ?rem = sint (MaxCountRead l) - sint (CountRead m)"
    using assms(2,5,6) by (intro sint_sub_no_wrap) simp_all
  then have rem: "sint ?rem = sint n"
    using assms(8) by simp
  then have n: "?rem = n"
    by (rule signed_word_eqI)
  have below: "\<not> MaxCountRead l \<le>s CountRead m"
    using assms(5) by (simp add: word_sle_eq)
  have trunc: "?rem <s of_nat (length p)" "\<not> ?rem <s 0"
    using assms(5,6,8) rem req by (simp_all add: word_sless_alt)
  have len: "length (take (nat (sint n)) p) = nat (sint n)"
    using assms(6,8) by simp
  show ?thesis
    using Limit_Read_limited [where p = p and h = h and d = d and n = n and uerr = None
        and s' = s', OF assms(1) assms(3) assms(4) below refl refl]
      trunc assms(7,8) n len
    by simp
qed

lemma Limit_Write_truncated_full:
  assumes "Meter l = Some m" "length p < 2 ^ 63" "Writer m = Some wr"
    and "MaxCountWrite l \<noteq> Unlimited"
    and "0 < sint (MaxCountWrite l) - sint (CountWrite m)"
    and "sint (MaxCountWrite l) - sint (CountWrite m) < int (length p)"
    and "w_Write wr (take (nat (sint (MaxCountWrite l) - sint (CountWrite m))) p) (h (w_ptr wr))
           = ((n, None), s')"
    and "sint n = sint (MaxCountWrite l) - sint (CountWrite m)"
  shows "Limit_Write l p h =
           Inr ((n, Some (MakeError (LimitError IO_Write (of_nat (length p)) n))),
                l\<lparr>Meter := Some (m\<lparr>wCount := wCount m + n\<rparr>)\<rparr>, h(w_ptr wr := s'))"
proof -
  let ?rem = "MaxCountWrite l - CountWrite m"
  have req: "sint (of_nat (length p) :: int64) = int (length p)"
    using assms(2) by (rule sint_of_nat64)
  have "sint ?rem = sint (MaxCountWrite l) - sint (CountWrite m)"
    using assms(2,5,6) by (intro sint_sub_no_wrap) simp_all
  then have rem: "sint ?rem = sint n"
    using assms(8) by simp
  then have n: "?rem = n"
    by (rule signed_word_eqI)
  have below: "\<not> MaxCountWrite l \<le>s CountWrite m"
    using assms(5) by (simp add: word_sle_eq)
  have trunc: "?rem <s of_nat (length p)" "\<not> ?rem <s 0"
    using assms(5,6,8) rem req by (simp_all add: word_sless_alt)
  show ?thesis
    using Limit_Write_limited [where p = p and h = h and n = n and uerr = None
        and s' = s', OF assms(1) assms(3) assms(4) below refl refl]
      trunc assms(7,8) n
    by simp
qed

text \<open>
  C2, as stated, fails: the ceiling is 5, nothing is counted yet, the buffer holds 13
  bytes, so \<open>0 < Rem = 5 < R = 13\<close>; the reader has two bytes left and hands them over
  without an error. The call transfers 2 bytes, not 5, and the counter advances to 2,
  while the error still says \<open>Accepted = 5\<close>.
\<close>

theorem C2_short_endpoint_counterexample:
  "MaxCountRead (Limit_at 5 0 13 0) \<noteq> Unlimited
   \<and> sint (MaxCountRead (Limit_at 5 0 13 0)) - sint (CountRead (Meter_at 0 0)) = 5
   \<and> int (length limitSrcBuf) = 13
   \<and> Limit_Read (Limit_at 5 0 13 0) limitSrcBuf heap_short =
        Inr ((limitSrcBuf, 2, Some (MakeError (LimitError IO_Read 13 5))),
             Limit_at 5 2 13 0, heap_short(0 := []))
   \<and> (2 :: int64) \<noteq> 5"
  by (simp add: Limit_Read_def Limit_at_def Meter_at_def SetCount_def SetCountRead_def
      SetCountWrite_def NewMeter_def Limit_CanRead_def CanRead_def RemainingCountRead_def
      Limit_CountRead_def MaxCountRead_def CountRead_def Unlimited_def limitSrcBuf_def
      heap_short_def call_Read_def bytes_Reader_def fill_def AddCountRead_def
      MakeReadLimitError_def Let_def signed_cmp)

text \<open>
  C2, amended. With the direction bound, a ceiling other than \<open>Unlimited\<close> and a buffer
  of length \<open>R\<close> over a remaining capacity \<open>Rem\<close> with \<open>0 < Rem < R\<close>, the endpoint is
  handed the first \<open>Rem\<close> bytes only; when it transfers all of them (\<open>n = Rem\<close>) and
  reports no error, the call returns \<open>n = Rem\<close> with the LimitError
  \<open>Requested = R\<close>, \<open>Accepted = Rem\<close>, and the counter advances by exactly \<open>Rem\<close>.
\<close>

theorem C2_truncated_to_remaining:
  assumes "Meter l = Some m" "length p < 2 ^ 63"
  shows "(Reader m = Some rd \<and> MaxCountRead l \<noteq> Unlimited
          \<and> 0 < sint (MaxCountRead l) - sint (CountRead m)
          \<and> sint (MaxCountRead l) - sint (CountRead m) < int (length p)
          \<and> r_Read rd (take (nat (sint (MaxCountRead l) - sint (CountRead m))) p)
               (h (r_ptr rd)) = ((d, n, None), s')
          \<and> sint n = sint (MaxCountRead l) - sint (CountRead m)
          \<longrightarrow> Limit_Read l p h =
                Inr ((fill (take (nat (sint n)) p) d @ drop (nat (sint n)) p, n,
                      Some (MakeError (LimitError IO_Read (of_nat (length p)) n))),
                     l\<lparr>Meter := Some (m\<lparr>rCount := rCount m + n\<rparr>)\<rparr>, h(r_ptr rd := s')))
       \<and> (Writer m = Some wr \<and> MaxCountWrite l \<noteq> Unlimited
          \<and> 0 < sint (MaxCountWrite l) - sint (CountWrite m)
          \<and> sint (MaxCountWrite l) - sint (CountWrite m) < int (length p)
          \<and> w_Write wr (take (nat (sint (MaxCountWrite l) - sint (CountWrite m))) p)
               (h (w_ptr wr)) = ((k, None), t')
          \<and> sint k = sint (MaxCountWrite l) - sint (CountWrite m)
          \<longrightarrow> Limit_Write l p h =
                Inr ((k, Some (MakeError (LimitError IO_Write (of_nat (length p)) k))),
                     l\<lparr>Meter := Some (m\<lparr>wCount := wCount m + k\<rparr>)\<rparr>, h(w_ptr wr := t')))"
  using assms Limit_Read_truncated_full [of l m p rd h d n s']
    Limit_Write_truncated_full [of l m p wr h k t']
  by blast

theorem C2_truncated_to_remaining_witness:
  "Meter (Limit_at 5 0 5 0) = Some (Meter_at 0 0) \<and> length limitSrcBuf < 2 ^ 63
   \<and> Reader (Meter_at 0 0) = Some (bytes_Reader 0) \<and> MaxCountRead (Limit_at 5 0 5 0) \<noteq> Unlimited
   \<and> sint (MaxCountRead (Limit_at 5 0 5 0)) - sint (CountRead (Meter_at 0 0)) = 5
   \<and> int (length limitSrcBuf) = 13
   \<and> r_Read (bytes_Reader 0) (take 5 limitSrcBuf) (heap0 0)
        = ((take 5 limitSrcBuf, 5, None), drop 5 limitSrcBuf)
   \<and> Limit_Read (Limit_at 5 0 5 0) limitSrcBuf heap0 =
        Inr ((limitSrcBuf, 5, Some (MakeError (LimitError IO_Read 13 5))),
             Limit_at 5 5 5 0, heap0(0 := drop 5 limitSrcBuf))
   \<and> Writer (Meter_at 0 0) = Some (bytes_Buffer 1) \<and> MaxCountWrite (Limit_at 5 0 5 0) \<noteq> Unlimited
   \<and> sint (MaxCountWrite (Limit_at 5 0 5 0)) - sint (CountWrite (Meter_at 0 0)) = 5
   \<and> w_Write (bytes_Buffer 1) (take 5 limitSrcBuf) (heap0 1) = ((5, None), take 5 limitSrcBuf)
   \<and> Limit_Write (Limit_at 5 0 5 0) limitSrcBuf heap0 =
        Inr ((5, Some (MakeError (LimitError IO_Write 13 5))),
             Limit_at 5 0 5 5, heap0(1 := take 5 limitSrcBuf))"
  using C2_truncated_to_remaining [where l = "Limit_at 5 0 5 0" and m = "Meter_at 0 0"
      and p = limitSrcBuf and h = heap0 and rd = "bytes_Reader 0" and d = "take 5 limitSrcBuf"
      and n = 5 and s' = "drop 5 limitSrcBuf" and wr = "bytes_Buffer 1" and k = 5
      and t' = "take 5 limitSrcBuf"]
  by (simp add: Limit_at_def Meter_at_def SetCount_def SetCountRead_def SetCountWrite_def
      NewMeter_def MaxCountRead_def MaxCountWrite_def CountRead_def CountWrite_def
      Unlimited_def limitSrcBuf_def heap0_def bytes_Reader_def bytes_Buffer_def fill_def)

text \<open>
  C6. When the call was truncated by the ceiling (a pending LimitError exists), the
  error returned is the endpoint's own error whenever it reports one, unchanged, and
  the pending LimitError only when it reports none; either way the count returned and
  added to the counter is the endpoint's.
\<close>

theorem C6_endpoint_error_first:
  assumes "Meter l = Some m"
  shows "(Reader m = Some rd \<and> MaxCountRead l \<noteq> Unlimited \<and> \<not> MaxCountRead l \<le>s CountRead m
          \<and> MaxCountRead l - CountRead m <s of_nat (length p)
          \<and> \<not> MaxCountRead l - CountRead m <s 0
          \<and> r_Read rd (take (nat (sint (MaxCountRead l - CountRead m))) p) (h (r_ptr rd))
               = ((d, n, uerr), s')
          \<longrightarrow> Limit_Read l p h =
                Inr ((fill (take (nat (sint (MaxCountRead l - CountRead m))) p) d
                        @ drop (length (take (nat (sint (MaxCountRead l - CountRead m))) p)) p,
                      n,
                      case uerr of
                        Some e \<Rightarrow> Some e
                      | None \<Rightarrow> Some (MakeError (LimitError IO_Read (of_nat (length p))
                                                   (MaxCountRead l - CountRead m)))),
                     l\<lparr>Meter := Some (m\<lparr>rCount := rCount m + n\<rparr>)\<rparr>, h(r_ptr rd := s')))
       \<and> (Writer m = Some wr \<and> MaxCountWrite l \<noteq> Unlimited \<and> \<not> MaxCountWrite l \<le>s CountWrite m
          \<and> MaxCountWrite l - CountWrite m <s of_nat (length p)
          \<and> \<not> MaxCountWrite l - CountWrite m <s 0
          \<and> w_Write wr (take (nat (sint (MaxCountWrite l - CountWrite m))) p) (h (w_ptr wr))
               = ((k, werr), t')
          \<longrightarrow> Limit_Write l p h =
                Inr ((k,
                      case werr of
                        Some e \<Rightarrow> Some e
                      | None \<Rightarrow> Some (MakeError (LimitError IO_Write (of_nat (length p))
                                                   (MaxCountWrite l - CountWrite m)))),
                     l\<lparr>Meter := Some (m\<lparr>wCount := wCount m + k\<rparr>)\<rparr>, h(w_ptr wr := t')))"
proof (intro conjI impI)
  assume a: "Reader m = Some rd \<and> MaxCountRead l \<noteq> Unlimited \<and> \<not> MaxCountRead l \<le>s CountRead m
          \<and> MaxCountRead l - CountRead m <s of_nat (length p)
          \<and> \<not> MaxCountRead l - CountRead m <s 0
          \<and> r_Read rd (take (nat (sint (MaxCountRead l - CountRead m))) p) (h (r_ptr rd))
               = ((d, n, uerr), s')"
  then show "Limit_Read l p h =
                Inr ((fill (take (nat (sint (MaxCountRead l - CountRead m))) p) d
                        @ drop (length (take (nat (sint (MaxCountRead l - CountRead m))) p)) p,
                      n,
                      case uerr of
                        Some e \<Rightarrow> Some e
                      | None \<Rightarrow> Some (MakeError (LimitError IO_Read (of_nat (length p))
                                                   (MaxCountRead l - CountRead m)))),
                     l\<lparr>Meter := Some (m\<lparr>rCount := rCount m + n\<rparr>)\<rparr>, h(r_ptr rd := s'))"
    using assms
      Limit_Read_limited [of l m rd "MaxCountRead l - CountRead m" "of_nat (length p)" p
        "take (nat (sint (MaxCountRead l - CountRead m))) p" h d n uerr s']
    by (cases uerr) simp_all
next
  assume a: "Writer m = Some wr \<and> MaxCountWrite l \<noteq> Unlimited \<and> \<not> MaxCountWrite l \<le>s CountWrite m
          \<and> MaxCountWrite l - CountWrite m <s of_nat (length p)
          \<and> \<not> MaxCountWrite l - CountWrite m <s 0
          \<and> w_Write wr (take (nat (sint (MaxCountWrite l - CountWrite m))) p) (h (w_ptr wr))
               = ((k, werr), t')"
  then show "Limit_Write l p h =
                Inr ((k,
                      case werr of
                        Some e \<Rightarrow> Some e
                      | None \<Rightarrow> Some (MakeError (LimitError IO_Write (of_nat (length p))
                                                   (MaxCountWrite l - CountWrite m)))),
                     l\<lparr>Meter := Some (m\<lparr>wCount := wCount m + k\<rparr>)\<rparr>, h(w_ptr wr := t'))"
    using assms
      Limit_Write_limited [of l m wr "MaxCountWrite l - CountWrite m" "of_nat (length p)" p
        "take (nat (sint (MaxCountWrite l - CountWrite m))) p" h k werr t']
    by (cases werr) simp_all
qed

theorem C6_endpoint_error_first_witness:
  "Meter mock_Limit = Some (NewReadWriteMeter
       (Some (mockReadWriteCloser 2 (Some (Errorf ''read fault'')) None None)))
   \<and> MaxCountRead mock_Limit \<noteq> Unlimited \<and> MaxCountWrite mock_Limit \<noteq> Unlimited
   \<and> \<not> MaxCountRead mock_Limit \<le>s 0 \<and> \<not> MaxCountWrite mock_Limit \<le>s 0
   \<and> MaxCountRead mock_Limit - 0 <s of_nat (length limitSrcBuf)
   \<and> MaxCountWrite mock_Limit - 0 <s of_nat (length limitSrcBuf)
   \<and> Limit_Read mock_Limit limitSrcBuf heap0 =
        Inr ((limitSrcBuf, 0, Some (Errorf ''read fault'')), mock_Limit, heap0(2 := []))
   \<and> Limit_Write mock_Limit limitSrcBuf heap0 =
        Inr ((0, Some (MakeError (LimitError IO_Write 13 5))), mock_Limit, heap0(2 := []))"
  using C6_endpoint_error_first [where l = mock_Limit
      and m = "NewReadWriteMeter
                 (Some (mockReadWriteCloser 2 (Some (Errorf ''read fault'')) None None))"
      and p = limitSrcBuf and h = heap0
      and rd = "as_Reader (mockReadWriteCloser 2 (Some (Errorf ''read fault'')) None None)"
      and d = "[]" and n = 0 and uerr = "Some (Errorf ''read fault'')" and s' = "[]"
      and wr = "as_Writer (mockReadWriteCloser 2 (Some (Errorf ''read fault'')) None None)"
      and k = 0 and werr = None and t' = "[]"]
  by (simp add: mock_Limit_def NewReadWriteLimit_def SetMaxCount_def NewReadWriteMeter_def
      as_Reader_def as_Writer_def mockReadWriteCloser_def MaxCountRead_def MaxCountWrite_def
      CountRead_def CountWrite_def Unlimited_def limitSrcBuf_def heap0_def fill_def
      signed_cmp)

text \<open>
  C7. \<open>Meter.Read\<close> (\<open>Meter.Write\<close>) returns what the endpoint's \<open>Read\<close> (\<open>Write\<close>)
  returned and adds to \<open>rCount\<close> (\<open>wCount\<close>) the count \<open>n\<close> of that result, whatever the
  length of the buffer and whether or not an error comes with it; the other counter
  stays. Without the endpoint the call fails with \<open>ErrClosedPipe\<close> and changes nothing.
  The counter operations change exactly the counter they name.
\<close>

theorem C7_counter_adds_returned_count:
  "(Reader m = Some rd \<and> r_Read rd p (h (r_ptr rd)) = ((d, n, err), s') \<longrightarrow>
      Meter_Read m p h = ((fill p d, n, err), m\<lparr>rCount := rCount m + n\<rparr>, h(r_ptr rd := s'))
      \<and> CountRead (m\<lparr>rCount := rCount m + n\<rparr>) = CountRead m + n
      \<and> CountWrite (m\<lparr>rCount := rCount m + n\<rparr>) = CountWrite m)
   \<and> (Writer m = Some wr \<and> w_Write wr p (h (w_ptr wr)) = ((k, err'), t') \<longrightarrow>
      Meter_Write m p h = ((k, err'), m\<lparr>wCount := wCount m + k\<rparr>, h(w_ptr wr := t'))
      \<and> CountWrite (m\<lparr>wCount := wCount m + k\<rparr>) = CountWrite m + k
      \<and> CountRead (m\<lparr>wCount := wCount m + k\<rparr>) = CountRead m)
   \<and> (Reader m = None \<longrightarrow> Meter_Read m p h = ((p, 0, Some ErrClosedPipe), m, h))
   \<and> (Writer m = None \<longrightarrow> Meter_Write m p h = ((0, Some ErrClosedPipe), m, h))
   \<and> CountRead (snd (AddCountRead m r)) = CountRead m + r
   \<and> CountWrite (snd (AddCountRead m r)) = CountWrite m
   \<and> CountWrite (snd (AddCountWrite m w)) = CountWrite m + w
   \<and> CountRead (snd (AddCountWrite m w)) = CountRead m
   \<and> CountRead (SetCountRead m r) = r \<and> CountWrite (SetCountRead m r) = CountWrite m
   \<and> CountWrite (SetCountWrite m w) = w \<and> CountRead (SetCountWrite m w) = CountRead m
   \<and> CountRead (ResetCountRead m) = 0 \<and> CountWrite (ResetCountRead m) = CountWrite m
   \<and> CountWrite (ResetCountWrite m) = 0 \<and> CountRead (ResetCountWrite m) = CountRead m"
  by (simp add: Meter_Read_def Meter_Write_def call_Read_def call_Write_def AddCountRead_def
      AddCountWrite_def CountRead_def CountWrite_def SetCountRead_def SetCountWrite_def
      ResetCountRead_def ResetCountWrite_def)

text \<open>
  The witness: a buffer of 20 bytes over the 13 bytes of the payload counts 13, not 20;
  a read that fails with 0 bytes counts 0; a write of the payload counts 13.
\<close>

theorem C7_counter_adds_returned_count_witness:
  "Reader (Meter_at 0 0) = Some (bytes_Reader 0)
   \<and> r_Read (bytes_Reader 0) (replicate 20 0) (heap0 0) = ((limitSrcBuf, 13, None), [])
   \<and> Meter_Read (Meter_at 0 0) (replicate 20 0) heap0 =
        ((limitSrcBuf @ replicate 7 0, 13, None), Meter_at 13 0, heap0(0 := []))
   \<and> Writer (Meter_at 0 0) = Some (bytes_Buffer 1)
   \<and> w_Write (bytes_Buffer 1) limitSrcBuf (heap0 1) = ((13, None), limitSrcBuf)
   \<and> Meter_Write (Meter_at 0 0) limitSrcBuf heap0 =
        ((13, None), Meter_at 0 13, heap0(1 := limitSrcBuf))"
  using C7_counter_adds_returned_count [where m = "Meter_at 0 0" and rd = "bytes_Reader 0"
      and p = "replicate 20 0" and h = heap0 and d = limitSrcBuf and n = 13 and err = None
      and s' = "[]"]
    C7_counter_adds_returned_count [where m = "Meter_at 0 0" and wr = "bytes_Buffer 1"
      and p = limitSrcBuf and h = heap0 and k = 13 and err' = None and t' = limitSrcBuf]
  by (simp add: Meter_at_def SetCount_def SetCountRead_def SetCountWrite_def NewMeter_def
      bytes_Reader_def bytes_Buffer_def heap0_def limitSrcBuf_def fill_def
      numeral_eq_Suc)

subsection \<open>The drains at an exhausted ceiling\<close>



text \<open>
  C1 at a negative remaining capacity. The write ceiling is 5 and 8 bytes are counted
  (the ceiling was lowered, or the counter set, after 8 bytes): \<open>rem = -3\<close>. \<open>ReadFrom\<close>
  returns 0 bytes without touching the source, and the LimitError has
  \<open>Requested = -3\<close>, not 0. \<open>WriteTo\<close> does the same with the read ceiling.
\<close>

theorem C1_requested_is_remaining:
  "MaxCountWrite (Limit_at 5 0 5 8) \<noteq> Unlimited
   \<and> MaxCountWrite (Limit_at 5 0 5 8) - CountWrite (Meter_at 0 8) \<le>s 0
   \<and> Limit_ReadFrom (Limit_at 5 0 5 8) (bytes_Reader 0) heap0 =
        Some (Inr ((0, Some (MakeError (LimitError IO_Write (- 3) 0))), Limit_at 5 0 5 8, heap0))
   \<and> MaxCountRead (Limit_at 5 8 5 0) \<noteq> Unlimited
   \<and> MaxCountRead (Limit_at 5 8 5 0) - CountRead (Meter_at 8 0) \<le>s 0
   \<and> Limit_WriteTo (Limit_at 5 8 5 0) (bytes_Buffer 1) heap0 =
        Some (Inr ((0, Some (MakeError (LimitError IO_Read (- 3) 0))), Limit_at 5 8 5 0, heap0))
   \<and> (- 3 :: int64) \<noteq> 0"
  by (simp add: Limit_ReadFrom_def Limit_WriteTo_def Limit_at_def Meter_at_def SetCount_def
      SetCountRead_def SetCountWrite_def NewMeter_def Limit_CanRead_def Limit_CanWrite_def
      CanRead_def CanWrite_def RemainingCountRead_def RemainingCountWrite_def
      Limit_CountRead_def Limit_CountWrite_def MaxCountRead_def MaxCountWrite_def
      CountRead_def CountWrite_def Unlimited_def MakeReadLimitError_def
      MakeWriteLimitError_def signed_cmp)

subsection \<open>Close\<close>






text \<open>
  C10. A Meter built by \<open>NewReadWriteMeter(rw)\<close> binds the one object \<open>rw\<close> as reader
  and as writer. When \<open>rw\<close> is a closer, \<open>Close\<close> calls its \<open>Close\<close> twice, the second
  time on the state the first call left, and returns the join of the two results.
\<close>

theorem C10_shared_endpoint_closed_twice:
  "rw_Close rw = Some c \<and> c (h (rw_ptr rw)) = (e1, s1) \<and> c s1 = (e2, s2) \<longrightarrow>
     Meter_Close (NewReadWriteMeter (Some rw)) h =
       (errors_Join [errors_Join [None, e1], e2], h(rw_ptr rw := s2))"
  by (simp add: Meter_Close_def NewReadWriteMeter_def as_Reader_def as_Writer_def
      any_Reader_def any_Writer_def)

text \<open>
  The witness closes an endpoint that can be closed only once: the second call of its
  \<open>Close\<close> fails, and that failure is what \<open>Meter.Close\<close> returns.
\<close>

theorem C10_shared_endpoint_closed_twice_witness:
  "rw_Close (fileCloser 3) \<noteq> None
   \<and> Meter_Close (NewReadWriteMeter (Some (fileCloser 3))) heap0 =
       (Some (joinError [Errorf ''file already closed'']), heap0(3 := [1]))"
  using C10_shared_endpoint_closed_twice [where rw = "fileCloser 3" and h = heap0
      and c = "\<lambda>s. if s = [] then (None, [1]) else (Some (Errorf ''file already closed''), s)"
      and ?e1.0 = None and ?s1.0 = "[1]" and ?e2.0 = "Some (Errorf ''file already closed'')"
      and ?s2.0 = "[1]"]
  by (simp add: fileCloser_def heap0_def errors_Join_def List.map_filter_simps)

subsection \<open>An unlimited ceiling\<close>

lemma Limit_Meter_same: "Meter l = Some m \<Longrightarrow> l\<lparr>Meter := Some m\<rparr> = l"
  by (cases l) simp

lemma Limit_Read_Unlimited:
  assumes "Meter l = Some m" "MaxCountRead l = Unlimited"
  shows "Limit_Read l p h =
           (case Meter_Read m p h of (res, m', h') \<Rightarrow> Inr (res, l\<lparr>Meter := Some m'\<rparr>, h'))"
  using assms
  by (cases "Reader m")
    (simp_all add: Limit_Read_def Limit_CanRead_def CanRead_def RemainingCountRead_def
      Limit_CountRead_def Meter_Read_def Limit_Meter_same)

lemma Limit_Write_Unlimited:
  assumes "Meter l = Some m" "MaxCountWrite l = Unlimited"
  shows "Limit_Write l p h =
           (case Meter_Write m p h of (res, m', h') \<Rightarrow> Inr (res, l\<lparr>Meter := Some m'\<rparr>, h'))"
  using assms
  by (cases "Writer m")
    (simp_all add: Limit_Write_def Limit_CanWrite_def CanWrite_def RemainingCountWrite_def
      Limit_CountWrite_def Meter_Write_def Limit_Meter_same)

lemma Limit_ReadFrom_Unlimited:
  assumes "Meter l = Some m" "MaxCountWrite l = Unlimited"
  shows "Limit_ReadFrom l r h =
           map_option (map_sum id (\<lambda>(res, m', h'). (res, l\<lparr>Meter := Some m'\<rparr>, h')))
             (Meter_ReadFrom m r h)"
proof (cases "Writer m")
  case None
  with assms show ?thesis
    by (simp add: Limit_ReadFrom_def Limit_CanWrite_def CanWrite_def Meter_ReadFrom_def
        Limit_Meter_same)
next
  case (Some wr)
  with assms show ?thesis
    by (auto simp: Limit_ReadFrom_def Limit_CanWrite_def CanWrite_def
        RemainingCountWrite_def Limit_CountWrite_def
        split: option.splits sum.splits prod.splits)
qed

lemma Limit_WriteTo_Unlimited:
  assumes "Meter l = Some m" "MaxCountRead l = Unlimited"
  shows "Limit_WriteTo l w h =
           map_option (map_sum id (\<lambda>(res, m', h'). (res, l\<lparr>Meter := Some m'\<rparr>, h')))
             (Meter_WriteTo m w h)"
proof (cases "Reader m")
  case None
  with assms show ?thesis
    by (simp add: Limit_WriteTo_def Limit_CanRead_def CanRead_def Meter_WriteTo_def
        Limit_Meter_same)
next
  case (Some rd)
  with assms show ?thesis
    by (auto simp: Limit_WriteTo_def Limit_CanRead_def CanRead_def
        RemainingCountRead_def Limit_CountRead_def
        split: option.splits sum.splits prod.splits)
qed

text \<open>
  C4. With the ceiling of its direction at \<open>Unlimited\<close>, each of the four transfer
  calls on the Limit is the same call on the embedded Meter: the same count and error
  (or panic, or no return), the same heap, and the Meter it leaves in the Limit is the
  Meter that call leaves, so the counters move alike. The counter \<open>m\<close> holds is
  arbitrary. \<open>SetMaxCountRead\<close>, \<open>SetMaxCountWrite\<close> and \<open>SetMaxCount\<close> with \<open>Unlimited\<close>
  put any Limit into that state and leave its Meter as it is.
\<close>

theorem C4_Unlimited_is_Meter:
  assumes "Meter l = Some m"
  shows "(MaxCountRead l = Unlimited \<longrightarrow>
            Limit_Read l p h =
              (case Meter_Read m p h of (res, m', h') \<Rightarrow> Inr (res, l\<lparr>Meter := Some m'\<rparr>, h'))
            \<and> Limit_WriteTo l w h =
                map_option (map_sum id (\<lambda>(res, m', h'). (res, l\<lparr>Meter := Some m'\<rparr>, h')))
                  (Meter_WriteTo m w h))
       \<and> (MaxCountWrite l = Unlimited \<longrightarrow>
            Limit_Write l p h =
              (case Meter_Write m p h of (res, m', h') \<Rightarrow> Inr (res, l\<lparr>Meter := Some m'\<rparr>, h'))
            \<and> Limit_ReadFrom l r h =
                map_option (map_sum id (\<lambda>(res, m', h'). (res, l\<lparr>Meter := Some m'\<rparr>, h')))
                  (Meter_ReadFrom m r h))
       \<and> MaxCountRead (SetMaxCountRead l Unlimited) = Unlimited
       \<and> Meter (SetMaxCountRead l Unlimited) = Some m
       \<and> MaxCountWrite (SetMaxCountWrite l Unlimited) = Unlimited
       \<and> Meter (SetMaxCountWrite l Unlimited) = Some m
       \<and> MaxCountRead (SetMaxCount l Unlimited Unlimited) = Unlimited
       \<and> MaxCountWrite (SetMaxCount l Unlimited Unlimited) = Unlimited
       \<and> Meter (SetMaxCount l Unlimited Unlimited) = Some m"
  using assms Limit_Read_Unlimited [of l m p h] Limit_Write_Unlimited [of l m p h]
    Limit_ReadFrom_Unlimited [of l m r h] Limit_WriteTo_Unlimited [of l m w h]
  by (simp add: SetMaxCountRead_def SetMaxCountWrite_def SetMaxCount_def MaxCountRead_def
      MaxCountWrite_def)

text \<open>
  The witness: the ceilings are set to \<open>Unlimited\<close> on a Limit whose counters (13 and
  13) are already far above the old ceilings (5 and 5); a read of the payload then
  returns all 13 bytes without an error, as the Meter does. (\<open>TestLimit_ReadUnlimited\<close>,
  \<open>TestLimit_WriteUnlimited\<close>.)
\<close>

theorem C4_Unlimited_is_Meter_witness:
  "Meter (SetMaxCount (Limit_at 5 13 5 13) Unlimited Unlimited) = Some (Meter_at 13 13)
   \<and> MaxCountRead (SetMaxCount (Limit_at 5 13 5 13) Unlimited Unlimited) = Unlimited
   \<and> MaxCountWrite (SetMaxCount (Limit_at 5 13 5 13) Unlimited Unlimited) = Unlimited
   \<and> Limit_Read (SetMaxCount (Limit_at 5 13 5 13) Unlimited Unlimited) limitSrcBuf heap0 =
        Inr ((limitSrcBuf, 13, None), Limit_at (- 1) 26 (- 1) 13, heap0(0 := []))
   \<and> Meter_Read (Meter_at 13 13) limitSrcBuf heap0 =
        ((limitSrcBuf, 13, None), Meter_at 26 13, heap0(0 := []))
   \<and> Limit_Write (SetMaxCount (Limit_at 5 13 5 13) Unlimited Unlimited) limitSrcBuf heap0 =
        Inr ((13, None), Limit_at (- 1) 13 (- 1) 26, heap0(1 := limitSrcBuf))
   \<and> Meter_Write (Meter_at 13 13) limitSrcBuf heap0 =
        ((13, None), Meter_at 13 26, heap0(1 := limitSrcBuf))
   \<and> Limit_ReadFrom (SetMaxCount (Limit_at 5 13 5 13) Unlimited Unlimited)
         (bytes_Reader 0) heap0 =
        map_option (map_sum id (\<lambda>(res, m', h').
            (res, (SetMaxCount (Limit_at 5 13 5 13) Unlimited Unlimited)\<lparr>Meter := Some m'\<rparr>, h')))
          (Meter_ReadFrom (Meter_at 13 13) (bytes_Reader 0) heap0)
   \<and> Limit_WriteTo (SetMaxCount (Limit_at 5 13 5 13) Unlimited Unlimited)
         (bytes_Buffer 1) heap0 =
        map_option (map_sum id (\<lambda>(res, m', h').
            (res, (SetMaxCount (Limit_at 5 13 5 13) Unlimited Unlimited)\<lparr>Meter := Some m'\<rparr>, h')))
          (Meter_WriteTo (Meter_at 13 13) (bytes_Buffer 1) heap0)"
proof -
  let ?l = "SetMaxCount (Limit_at 5 13 5 13) Unlimited Unlimited"
  have m: "Meter ?l = Some (Meter_at 13 13)"
    by (simp add: SetMaxCount_def Limit_at_def Meter_at_def)
  have u: "MaxCountRead ?l = Unlimited" "MaxCountWrite ?l = Unlimited"
    by (simp_all add: SetMaxCount_def MaxCountRead_def MaxCountWrite_def)
  note c4 = C4_Unlimited_is_Meter [OF m, where p = limitSrcBuf and h = heap0
      and r = "bytes_Reader 0" and w = "bytes_Buffer 1"]
  have mr: "Meter_Read (Meter_at 13 13) limitSrcBuf heap0 =
        ((limitSrcBuf, 13, None), Meter_at 26 13, heap0(0 := []))"
    by (simp add: Meter_Read_def Meter_at_def SetCount_def SetCountRead_def SetCountWrite_def
        NewMeter_def call_Read_def bytes_Reader_def heap0_def limitSrcBuf_def fill_def
        AddCountRead_def)
  have mw: "Meter_Write (Meter_at 13 13) limitSrcBuf heap0 =
        ((13, None), Meter_at 13 26, heap0(1 := limitSrcBuf))"
    by (simp add: Meter_Write_def Meter_at_def SetCount_def SetCountRead_def SetCountWrite_def
        NewMeter_def call_Write_def bytes_Buffer_def heap0_def limitSrcBuf_def
        AddCountWrite_def)
  have l26: "?l\<lparr>Meter := Some (Meter_at 26 13)\<rparr> = Limit_at (- 1) 26 (- 1) 13"
    "?l\<lparr>Meter := Some (Meter_at 13 26)\<rparr> = Limit_at (- 1) 13 (- 1) 26"
    by (simp_all add: SetMaxCount_def Limit_at_def Meter_at_def Unlimited_def)
  show ?thesis
    using c4 u m mr mw l26 by simp
qed

subsection \<open>The bounded drain\<close>

text \<open>\<open>io.CopyN\<close> returns the count \<open>n\<close> it was asked for only together with \<open>nil\<close>.\<close>

lemma io_CopyN_full:
  assumes "io_CopyN dst src n h = Some (Inr ((n, err), h'))"
  shows "err = None"
  using assms
  by (auto simp: io_CopyN_def Let_def split: option.splits sum.splits prod.splits if_splits)

lemma Limit_ReadFrom_limited:
  assumes "Meter l = Some m" "Writer m = Some wr" "MaxCountWrite l \<noteq> Unlimited"
    and "\<not> MaxCountWrite l - CountWrite m \<le>s 0"
  shows "Limit_ReadFrom l r h =
           (case io_CopyN wr r (MaxCountWrite l - CountWrite m) h of
              None \<Rightarrow> None
            | Some (Inl pn) \<Rightarrow> Some (Inl pn)
            | Some (Inr ((n, err), h')) \<Rightarrow>
                Some (Inr ((n, err), l\<lparr>Meter := Some (m\<lparr>wCount := wCount m + n\<rparr>)\<rparr>, h')))"
  using assms
  by (auto simp: Limit_ReadFrom_def Limit_CanWrite_def CanWrite_def RemainingCountWrite_def
      Limit_CountWrite_def AddCountWrite_def CountWrite_def
      split: option.splits sum.splits)

lemma Limit_WriteTo_limited:
  assumes "Meter l = Some m" "Reader m = Some rd" "MaxCountRead l \<noteq> Unlimited"
    and "\<not> MaxCountRead l - CountRead m \<le>s 0"
  shows "Limit_WriteTo l w h =
           (case io_CopyN w rd (MaxCountRead l - CountRead m) h of
              None \<Rightarrow> None
            | Some (Inl pn) \<Rightarrow> Some (Inl pn)
            | Some (Inr ((n, err), h')) \<Rightarrow>
                Some (Inr ((n, err), l\<lparr>Meter := Some (m\<lparr>rCount := rCount m + n\<rparr>)\<rparr>, h')))"
  using assms
  by (auto simp: Limit_WriteTo_def Limit_CanRead_def CanRead_def RemainingCountRead_def
      Limit_CountRead_def AddCountRead_def CountRead_def
      split: option.splits sum.splits)

text \<open>
  C9. With the writer bound, a write ceiling other than \<open>Unlimited\<close> and a remaining
  capacity \<open>rem > 0\<close>: when the bounded drain of \<open>ReadFrom\<close> copies exactly \<open>rem\<close> bytes,
  the call returns \<open>(rem, nil)\<close> and the counter reaches the ceiling; no LimitError is
  made, whatever the source still holds. \<open>WriteTo\<close> is the same with the read ceiling.
\<close>

theorem C9_drain_to_ceiling_returns_nil:
  assumes "Meter l = Some m"
  shows "(Writer m = Some wr \<and> MaxCountWrite l \<noteq> Unlimited
          \<and> \<not> MaxCountWrite l - CountWrite m \<le>s 0
          \<and> io_CopyN wr r (MaxCountWrite l - CountWrite m) h
               = Some (Inr ((MaxCountWrite l - CountWrite m, err), h'))
          \<longrightarrow> err = None
              \<and> Limit_ReadFrom l r h =
                  Some (Inr ((MaxCountWrite l - CountWrite m, None),
                             l\<lparr>Meter := Some (m\<lparr>wCount := MaxCountWrite l\<rparr>)\<rparr>, h')))
       \<and> (Reader m = Some rd \<and> MaxCountRead l \<noteq> Unlimited
          \<and> \<not> MaxCountRead l - CountRead m \<le>s 0
          \<and> io_CopyN w rd (MaxCountRead l - CountRead m) g
               = Some (Inr ((MaxCountRead l - CountRead m, err'), g'))
          \<longrightarrow> err' = None
              \<and> Limit_WriteTo l w g =
                  Some (Inr ((MaxCountRead l - CountRead m, None),
                             l\<lparr>Meter := Some (m\<lparr>rCount := MaxCountRead l\<rparr>)\<rparr>, g')))"
proof (intro conjI impI)
  assume a: "Writer m = Some wr \<and> MaxCountWrite l \<noteq> Unlimited
          \<and> \<not> MaxCountWrite l - CountWrite m \<le>s 0
          \<and> io_CopyN wr r (MaxCountWrite l - CountWrite m) h
               = Some (Inr ((MaxCountWrite l - CountWrite m, err), h'))"
  then show e: "err = None"
    using io_CopyN_full by blast
  show "Limit_ReadFrom l r h =
          Some (Inr ((MaxCountWrite l - CountWrite m, None),
                     l\<lparr>Meter := Some (m\<lparr>wCount := MaxCountWrite l\<rparr>)\<rparr>, h'))"
    using a e assms Limit_ReadFrom_limited [of l m wr r h]
    by (simp add: CountWrite_def)
next
  assume a: "Reader m = Some rd \<and> MaxCountRead l \<noteq> Unlimited
          \<and> \<not> MaxCountRead l - CountRead m \<le>s 0
          \<and> io_CopyN w rd (MaxCountRead l - CountRead m) g
               = Some (Inr ((MaxCountRead l - CountRead m, err'), g'))"
  then show e: "err' = None"
    using io_CopyN_full by blast
  show "Limit_WriteTo l w g =
          Some (Inr ((MaxCountRead l - CountRead m, None),
                     l\<lparr>Meter := Some (m\<lparr>rCount := MaxCountRead l\<rparr>)\<rparr>, g'))"
    using a e assms Limit_WriteTo_limited [of l m rd w g]
    by (simp add: CountRead_def)
qed

text \<open>
  The witness drains under a ceiling of 5 a source of 13 bytes (\<open>TestLimit_ReadFrom\<close>,
  \<open>TestLimit_WriteTo\<close>) and a source of exactly 5 bytes: both calls return \<open>(5, nil)\<close>.
\<close>

lemma io_CopyN_payload:
  "io_CopyN (bytes_Buffer 1) (bytes_Reader 0) 5 heap0 =
     Some (Inr ((5, None), heap0(0 := drop 5 limitSrcBuf, 1 := take 5 limitSrcBuf)))"
  by (simp add: io_CopyN_def copyBuffer_loop.simps LimitedReader_Read_def
      LimitedReader_dst_def call_Read_def call_Write_def bytes_Reader_def bytes_Buffer_def
      heap0_def limitSrcBuf_def fill_def Let_def signed_cmp numeral_eq_Suc)

lemma io_CopyN_five:
  "io_CopyN (bytes_Buffer 1) (bytes_Reader 0) 5 heap_five =
     Some (Inr ((5, None), heap_five(0 := [], 1 := take 5 limitSrcBuf)))"
  by (simp add: io_CopyN_def copyBuffer_loop.simps LimitedReader_Read_def
      LimitedReader_dst_def call_Read_def call_Write_def bytes_Reader_def bytes_Buffer_def
      heap_five_def limitSrcBuf_def fill_def Let_def signed_cmp numeral_eq_Suc)

theorem C9_drain_to_ceiling_returns_nil_witness:
  "Meter (Limit_at 5 0 5 0) = Some (Meter_at 0 0)
   \<and> Writer (Meter_at 0 0) = Some (bytes_Buffer 1) \<and> Reader (Meter_at 0 0) = Some (bytes_Reader 0)
   \<and> MaxCountWrite (Limit_at 5 0 5 0) \<noteq> Unlimited \<and> MaxCountRead (Limit_at 5 0 5 0) \<noteq> Unlimited
   \<and> MaxCountWrite (Limit_at 5 0 5 0) - CountWrite (Meter_at 0 0) = 5
   \<and> MaxCountRead (Limit_at 5 0 5 0) - CountRead (Meter_at 0 0) = 5
   \<and> \<not> (5 :: int64) \<le>s 0
   \<and> Limit_ReadFrom (Limit_at 5 0 5 0) (bytes_Reader 0) heap0 =
        Some (Inr ((5, None), Limit_at 5 0 5 5,
                   heap0(0 := drop 5 limitSrcBuf, 1 := take 5 limitSrcBuf)))
   \<and> Limit_ReadFrom (Limit_at 5 0 5 0) (bytes_Reader 0) heap_five =
        Some (Inr ((5, None), Limit_at 5 0 5 5, heap_five(0 := [], 1 := take 5 limitSrcBuf)))
   \<and> Limit_WriteTo (Limit_at 5 0 5 0) (bytes_Buffer 1) heap0 =
        Some (Inr ((5, None), Limit_at 5 5 5 0,
                   heap0(0 := drop 5 limitSrcBuf, 1 := take 5 limitSrcBuf)))
   \<and> Limit_WriteTo (Limit_at 5 0 5 0) (bytes_Buffer 1) heap_five =
        Some (Inr ((5, None), Limit_at 5 5 5 0, heap_five(0 := [], 1 := take 5 limitSrcBuf)))"
proof -
  have m: "Meter (Limit_at 5 0 5 0) = Some (Meter_at 0 0)"
    by (simp add: Limit_at_def Meter_at_def)
  have s: "Writer (Meter_at 0 0) = Some (bytes_Buffer 1)"
    "Reader (Meter_at 0 0) = Some (bytes_Reader 0)"
    "MaxCountWrite (Limit_at 5 0 5 0) \<noteq> Unlimited" "MaxCountRead (Limit_at 5 0 5 0) \<noteq> Unlimited"
    "MaxCountWrite (Limit_at 5 0 5 0) - CountWrite (Meter_at 0 0) = 5"
    "MaxCountRead (Limit_at 5 0 5 0) - CountRead (Meter_at 0 0) = 5"
    "\<not> (5 :: int64) \<le>s 0"
    by (simp_all add: Limit_at_def Meter_at_def SetCount_def SetCountRead_def
        SetCountWrite_def NewMeter_def MaxCountRead_def MaxCountWrite_def CountRead_def
        CountWrite_def Unlimited_def signed_cmp)
  have u: "(Limit_at 5 0 5 0)\<lparr>Meter := Some ((Meter_at 0 0)\<lparr>wCount := 5\<rparr>)\<rparr> = Limit_at 5 0 5 5"
    "(Limit_at 5 0 5 0)\<lparr>Meter := Some ((Meter_at 0 0)\<lparr>rCount := 5\<rparr>)\<rparr> = Limit_at 5 5 5 0"
    "MaxCountWrite (Limit_at 5 0 5 0) = 5" "MaxCountRead (Limit_at 5 0 5 0) = 5"
    by (simp_all add: Limit_at_def Meter_at_def SetCount_def SetCountRead_def
        SetCountWrite_def MaxCountRead_def MaxCountWrite_def)
  note a = C9_drain_to_ceiling_returns_nil [OF m, where wr = "bytes_Buffer 1"
      and r = "bytes_Reader 0" and h = heap0 and err = None
      and h' = "heap0(0 := drop 5 limitSrcBuf, 1 := take 5 limitSrcBuf)"
      and rd = "bytes_Reader 0" and w = "bytes_Buffer 1" and g = heap0 and err' = None
      and g' = "heap0(0 := drop 5 limitSrcBuf, 1 := take 5 limitSrcBuf)"]
  note b = C9_drain_to_ceiling_returns_nil [OF m, where wr = "bytes_Buffer 1"
      and r = "bytes_Reader 0" and h = heap_five and err = None
      and h' = "heap_five(0 := [], 1 := take 5 limitSrcBuf)"
      and rd = "bytes_Reader 0" and w = "bytes_Buffer 1" and g = heap_five and err' = None
      and g' = "heap_five(0 := [], 1 := take 5 limitSrcBuf)"]
  show ?thesis
    using a b m s u io_CopyN_payload io_CopyN_five by simp
qed

subsection \<open>The ceiling invariant\<close>




















end
